theory Spec2Isabelle
  imports Complex_Main
begin

section \<open>Values read from JSON, errors and log events\<close>

text \<open>
  A Python \<open>str\<close> is a sequence of code points and \<open>len\<close> counts them, so a string is
  a list of code points here; \<open>py_str\<close> writes an ASCII literal of the source.
\<close>

type_synonym pystr = "nat list"

abbreviation py_str :: "string \<Rightarrow> pystr" where
  "py_str s \<equiv> map of_char s"

text \<open>
  What \<open>json.load\<close> returns: \<open>None\<close>, a bool, an int, a float, a str, a list or a
  dict. A dict is kept as the association list of its (distinct) keys. A float
  literal stands for the real number it denotes.
\<close>

datatype json =
    JNull
  | JBool bool
  | JInt int
  | JFloat real
  | JStr pystr
  | JArr "json list"
  | JObj "(pystr \<times> json) list"

text \<open>The exceptions the modelled code can meet; \<open>ModelError\<close> is whatever a model raises.\<close>

datatype error =
    FileNotFoundError
  | JSONDecodeError
  | AttributeError
  | TypeError
  | KeyError
  | ValueError
  | IndexError
  | ModelError

text \<open>The calls to \<open>logger\<close>, one constructor for each call site of the modelled methods.\<close>

datatype log_event =
    Warning_config_not_found pystr
  | Error_no_embedding_model
  | Warning_documents_dir_not_found
  | Info_loading_from pystr
  | Error_loading pystr error
  | Info_loaded nat
  | Warning_no_documents
  | Error_no_valid_embeddings
  | Info_vector_store_initialized nat
  | Info_loaded_general_model
  | Info_online_general_model
  | Info_loaded_legal_bert
  | Warning_legal_bert_not_found
  | Info_initializing
  | Info_all_initialized
  | Error_initialization_failed error

text \<open>\<open>len(x)\<close>: defined on str, list and dict, a \<open>TypeError\<close> on the other values.\<close>

fun py_len :: "json \<Rightarrow> error + nat" where
  "py_len (JStr s) = Inr (length s)"
| "py_len (JArr xs) = Inr (length xs)"
| "py_len (JObj kvs) = Inr (length kvs)"
| "py_len JNull = Inl TypeError"
| "py_len (JBool b) = Inl TypeError"
| "py_len (JInt i) = Inl TypeError"
| "py_len (JFloat r) = Inl TypeError"

text \<open>
  \<open>d.get(key, default)\<close> on a dict: the value stored under the key (which may be
  \<open>None\<close>), the default only when the key is missing.
\<close>

definition dict_get :: "(pystr \<times> json) list \<Rightarrow> pystr \<Rightarrow> json \<Rightarrow> json" where
  "dict_get kvs k dflt = (case map_of kvs k of Some v \<Rightarrow> v | None \<Rightarrow> dflt)"

text \<open>
  \<open>for x in v\<close>: a list yields its elements, a str its characters (each a str of
  length one), a dict its keys; the other values are not iterable.
\<close>

fun py_iter :: "json \<Rightarrow> error + json list" where
  "py_iter (JArr xs) = Inr xs"
| "py_iter (JStr s) = Inr (map (\<lambda>c. JStr [c]) s)"
| "py_iter (JObj kvs) = Inr (map (\<lambda>kv. JStr (fst kv)) kvs)"
| "py_iter JNull = Inl TypeError"
| "py_iter (JBool b) = Inl TypeError"
| "py_iter (JInt i) = Inl TypeError"
| "py_iter (JFloat r) = Inl TypeError"

text \<open>\<open>x[key]\<close> with a str key: a dict raises \<open>KeyError\<close> on a missing key.\<close>

fun py_getitem :: "json \<Rightarrow> pystr \<Rightarrow> error + json" where
  "py_getitem (JObj kvs) k = (case map_of kvs k of Some v \<Rightarrow> Inr v | None \<Rightarrow> Inl KeyError)"
| "py_getitem JNull k = Inl TypeError"
| "py_getitem (JBool b) k = Inl TypeError"
| "py_getitem (JInt i) k = Inl TypeError"
| "py_getitem (JFloat r) k = Inl TypeError"
| "py_getitem (JStr s) k = Inl TypeError"
| "py_getitem (JArr xs) k = Inl TypeError"

section \<open>Documents, models and the pipeline object\<close>

text \<open>
  A vector of floats, its components taken as exact reals. A numpy array of one
  dimension is such a vector together with its dtype, which decides whether faiss
  accepts it; the two dtypes that occur are float32, what the models return, and
  float64, what \<open>np.zeros\<close> returns.
\<close>

type_synonym vec = "real list"

datatype dtype = Float32 | Float64

datatype ndarray = Array (dtype: dtype) (elems: vec)

text \<open>
  A loaded model is the function from the value handed to it to the array it returns
  or the exception it raises: embedding computation is opaque.
\<close>

type_synonym embedder = "json \<Rightarrow> error + ndarray"

text \<open>
  The dataclass \<open>LegalDocument\<close>. Its annotations are not enforced, so a field holds
  whatever the JSON record held.
\<close>

record LegalDocument =
  content :: json
  metadata :: json
  jurisdiction :: json
  legal_domain :: json
  language :: json
  embedding :: "ndarray option"

text \<open>
  \<open>faiss.IndexFlatIP\<close>: the dimension it was created with and the rows added to it,
  in the order they were added.
\<close>

record IndexFlatIP =
  dimension :: nat
  xb :: "vec list"

text \<open>
  The fields of \<open>LegalRAGPipeline\<close> that embedding, ingestion and indexing read or
  write. A model field is \<open>None\<close> until a model is loaded; a loaded model is truthy.
\<close>

record pipeline =
  config :: json
  embeddings_model :: "embedder option"
  legal_bert_model :: "embedder option"
  vector_store :: "IndexFlatIP option"
  legal_documents :: "LegalDocument list"

section \<open>Embedding selection\<close>

text \<open>
  Modelled from the spec: \<open>_generate_legal_bert_embedding\<close> is called by
  \<open>_generate_embedding\<close> but the source ends before its definition. Embedding is
  "an opaque function embed(text) -> vector", so it is the loaded legal BERT model
  applied to the text.
\<close>

definition generate_legal_bert_embedding :: "embedder \<Rightarrow> json \<Rightarrow> error + ndarray" where
  "generate_legal_bert_embedding legal_bert text = legal_bert text"

text \<open>
  \<open>self.embeddings_model.encode(text, normalize_embeddings=True)\<close>: the loaded
  general model applied to the text.
\<close>

definition encode :: "embedder \<Rightarrow> json \<Rightarrow> error + ndarray" where
  "encode model text = model text"

text \<open>\<open>np.zeros(n)\<close>: an array of float64.\<close>

definition zeros :: "nat \<Rightarrow> ndarray" where
  "zeros n = Array Float64 (replicate n 0)"

text \<open>
  \<open>_generate_embedding\<close> in two parts. First the conditions of its
  \<open>if\<close>/\<open>elif\<close>/\<open>else\<close>, in the order written: which branch is taken, or the
  exception raised on the way. \<open>len(text)\<close> is evaluated only when the legal BERT
  model is loaded (\<open>and\<close> short-circuits).
\<close>

datatype branch = Legal_BERT embedder | General embedder | Zero_fallback

definition embedding_branch :: "pipeline \<Rightarrow> json \<Rightarrow> error + branch" where
  "embedding_branch self text =
     (let otherwise =
        (case embeddings_model self of
           Some model \<Rightarrow> General model
         | None \<Rightarrow> Zero_fallback)
      in case legal_bert_model self of
           None \<Rightarrow> Inr otherwise
         | Some legal_bert \<Rightarrow>
             (case py_len text of
                Inl e \<Rightarrow> Inl e
              | Inr n \<Rightarrow> if n < 512 then Inr (Legal_BERT legal_bert) else Inr otherwise))"

text \<open>
  Then the bodies of the branches. The result is the events logged and the vector
  returned or the exception raised.
\<close>

definition generate_embedding ::
  "pipeline \<Rightarrow> json \<Rightarrow> log_event list \<times> (error + ndarray)" where
  "generate_embedding self text =
     (case embedding_branch self text of
        Inl e \<Rightarrow> ([], Inl e)
      | Inr (Legal_BERT legal_bert) \<Rightarrow> ([], generate_legal_bert_embedding legal_bert text)
      | Inr (General model) \<Rightarrow> ([], encode model text)
      | Inr Zero_fallback \<Rightarrow> ([Error_no_embedding_model], Inr (zeros 384)))"

section \<open>Configuration\<close>

text \<open>\<open>_get_default_config\<close>\<close>

definition get_default_config :: json where
  "get_default_config = JObj
     [(py_str ''embeddings'', JObj
         [(py_str ''model_name'', JStr (py_str ''sentence-transformers/all-MiniLM-L6-v2'')),
          (py_str ''legal_model_name'', JStr (py_str ''nlpaueb/legal-bert-base-uncased'')),
          (py_str ''dimension'', JInt 384),
          (py_str ''batch_size'', JInt 32)]),
      (py_str ''whisper'', JObj
         [(py_str ''model_size'', JStr (py_str ''large-v3'')),
          (py_str ''language'', JStr (py_str ''multilingual'')),
          (py_str ''quality_threshold'', JFloat 0.7)]),
      (py_str ''legal_processing'', JObj
         [(py_str ''chunk_size'', JInt 1000),
          (py_str ''chunk_overlap'', JInt 200),
          (py_str ''min_relevance_score'', JFloat 0.3),
          (py_str ''max_retrieved_docs'', JInt 5)]),
      (py_str ''languages'', JObj
         [(py_str ''supported'', JArr (map (\<lambda>l. JStr (py_str l))
            [''en'', ''es'', ''fr'', ''de'', ''zh'', ''ar'', ''hi'', ''ja'', ''ko'', ''pt'',
             ''it'', ''ru'', ''tr''])),
          (py_str ''default'', JStr (py_str ''en''))]),
      (py_str ''nvidia_flamingo'', JObj
         [(py_str ''enabled'', JBool True),
          (py_str ''quality_fallback_threshold'', JFloat 0.5),
          (py_str ''cost_optimization'', JBool True)])]"

text \<open>
  \<open>_load_config\<close>. \<open>read_json path\<close> is the outcome of opening the file and
  \<open>json.load\<close>; only \<open>FileNotFoundError\<close> is caught.
\<close>

definition load_config ::
  "(pystr \<Rightarrow> error + json) \<Rightarrow> pystr \<Rightarrow> log_event list \<times> (error + json)" where
  "load_config read_json config_path =
     (case read_json config_path of
        Inr cfg \<Rightarrow> ([], Inr cfg)
      | Inl e \<Rightarrow>
          if e = FileNotFoundError
          then ([Warning_config_not_found config_path], Inr get_default_config)
          else ([], Inl e))"

text \<open>\<open>cfg[a][b]\<close>, as in \<open>self.config["embeddings"]["model_name"]\<close>\<close>

definition subscript2 :: "json \<Rightarrow> pystr \<Rightarrow> pystr \<Rightarrow> error + json" where
  "subscript2 cfg a b =
     (case py_getitem cfg a of Inl e \<Rightarrow> Inl e | Inr inner \<Rightarrow> py_getitem inner b)"

section \<open>The world outside the pipeline\<close>

text \<open>
  An entry of \<open>models_dir/legal_documents\<close>: a plain file, or a directory with its
  \<open>*.json\<close> files in the order \<open>glob\<close> yields them, each with the outcome of
  opening and parsing it.
\<close>

type_synonym json_file = "pystr \<times> (error + json)"

datatype dir_entry = Plain_file pystr | Directory pystr "json_file list"

text \<open>
  What the constructor finds: the JSON files by path; under \<open>models_dir\<close> the
  directory \<open>sentence-transformers-legal\<close> (\<open>None\<close> when it does not exist,
  otherwise the outcome of loading the model from it), the model
  \<open>SentenceTransformer(name)\<close> fetches by name, the directory \<open>legal-bert-base\<close>,
  and \<open>legal_documents\<close> with its entries in the order \<open>iterdir\<close> yields them.
  \<open>speech_and_legal_components\<close> is the exception, if any, raised by
  \<open>_load_speech_models\<close> and \<open>_load_legal_components\<close> under a given
  configuration; these build collaborators outside the retrieval core and touch no
  field modelled here.
\<close>

record env =
  read_json :: "pystr \<Rightarrow> error + json"
  sentence_transformers_legal :: "(error + embedder) option"
  SentenceTransformer :: "json \<Rightarrow> error + embedder"
  legal_bert_base :: "(error + embedder) option"
  speech_and_legal_components :: "json \<Rightarrow> error option"
  legal_docs_dir :: "dir_entry list option"

text \<open>\<open>_load_embedding_models\<close>: first the general model, then legal BERT.\<close>

definition load_general_model :: "env \<Rightarrow> pipeline \<Rightarrow> log_event list \<times> (error + pipeline)" where
  "load_general_model env self =
     (case sentence_transformers_legal env of
        Some loaded \<Rightarrow>
          (case loaded of
             Inl e \<Rightarrow> ([], Inl e)
           | Inr model \<Rightarrow>
               ([Info_loaded_general_model], Inr (self\<lparr>embeddings_model := Some model\<rparr>)))
      | None \<Rightarrow>
          (case subscript2 (config self) (py_str ''embeddings'') (py_str ''model_name'') of
             Inl e \<Rightarrow> ([], Inl e)
           | Inr name \<Rightarrow>
               (case SentenceTransformer env name of
                  Inl e \<Rightarrow> ([], Inl e)
                | Inr model \<Rightarrow>
                    ([Info_online_general_model],
                     Inr (self\<lparr>embeddings_model := Some model\<rparr>)))))"

definition load_legal_bert :: "env \<Rightarrow> pipeline \<Rightarrow> log_event list \<times> (error + pipeline)" where
  "load_legal_bert env self =
     (case legal_bert_base env of
        Some loaded \<Rightarrow>
          (case loaded of
             Inl e \<Rightarrow> ([], Inl e)
           | Inr model \<Rightarrow>
               ([Info_loaded_legal_bert], Inr (self\<lparr>legal_bert_model := Some model\<rparr>)))
      | None \<Rightarrow> ([Warning_legal_bert_not_found], Inr self))"

definition load_embedding_models :: "env \<Rightarrow> pipeline \<Rightarrow> log_event list \<times> (error + pipeline)" where
  "load_embedding_models env self =
     (case load_general_model env self of
        (lg, Inl e) \<Rightarrow> (lg, Inl e)
      | (lg, Inr self') \<Rightarrow>
          (case load_legal_bert env self' of (lg', r) \<Rightarrow> (lg @ lg', r)))"

section \<open>Ingestion\<close>

text \<open>
  The construction of a \<open>LegalDocument\<close> from \<open>doc_data\<close>: five calls of
  \<open>doc_data.get\<close>, a method only a dict has.
\<close>

fun new_legal_document :: "json \<Rightarrow> error + LegalDocument" where
  "new_legal_document (JObj kvs) = Inr
     \<lparr>content = dict_get kvs (py_str ''content'') (JStr []),
      metadata = dict_get kvs (py_str ''metadata'') (JObj []),
      jurisdiction = dict_get kvs (py_str ''jurisdiction'') (JStr (py_str ''federal'')),
      legal_domain = dict_get kvs (py_str ''legal_domain'') (JStr (py_str ''general'')),
      language = dict_get kvs (py_str ''language'') (JStr (py_str ''en'')),
      embedding = None\<rparr>"
| "new_legal_document JNull = Inl AttributeError"
| "new_legal_document (JBool b) = Inl AttributeError"
| "new_legal_document (JInt i) = Inl AttributeError"
| "new_legal_document (JFloat r) = Inl AttributeError"
| "new_legal_document (JStr s) = Inl AttributeError"
| "new_legal_document (JArr xs) = Inl AttributeError"

text \<open>
  The running state of \<open>_load_legal_database\<close>: the pipeline object, the local
  \<open>document_count\<close> and the events logged so far.
\<close>

record ingestion =
  pipe :: pipeline
  document_count :: nat
  logged :: "log_event list"

text \<open>
  \<open>for doc_data in documents\<close>: the loop stops at the first exception, which is
  returned with the state reached; what was appended before stays appended.
\<close>

fun load_documents :: "json list \<Rightarrow> ingestion \<Rightarrow> error option \<times> ingestion" where
  "load_documents [] st = (None, st)"
| "load_documents (doc_data # rest) st =
     (case new_legal_document doc_data of
        Inl e \<Rightarrow> (Some e, st)
      | Inr legal_doc \<Rightarrow>
          (case generate_embedding (pipe st) (content legal_doc) of
             (lg, Inl e) \<Rightarrow> (Some e, st\<lparr>logged := logged st @ lg\<rparr>)
           | (lg, Inr v) \<Rightarrow>
               load_documents rest
                 (st\<lparr>pipe := (pipe st)\<lparr>legal_documents :=
                        legal_documents (pipe st) @ [legal_doc\<lparr>embedding := Some v\<rparr>]\<rparr>,
                     document_count := Suc (document_count st),
                     logged := logged st @ lg\<rparr>)))"

text \<open>The \<open>try\<close>/\<open>except Exception\<close> around one JSON file.\<close>

definition load_json_file :: "json_file \<Rightarrow> ingestion \<Rightarrow> ingestion" where
  "load_json_file json_file st =
     (case snd json_file of
        Inl e \<Rightarrow> st\<lparr>logged := logged st @ [Error_loading (fst json_file) e]\<rparr>
      | Inr documents \<Rightarrow>
          (case py_iter documents of
             Inl e \<Rightarrow> st\<lparr>logged := logged st @ [Error_loading (fst json_file) e]\<rparr>
           | Inr docs \<Rightarrow>
               (case load_documents docs st of
                  (None, st') \<Rightarrow> st'
                | (Some e, st') \<Rightarrow>
                    st'\<lparr>logged := logged st' @ [Error_loading (fst json_file) e]\<rparr>)))"

text \<open>One entry of the documents directory.\<close>

fun load_doc_type_dir :: "dir_entry \<Rightarrow> ingestion \<Rightarrow> ingestion" where
  "load_doc_type_dir (Plain_file name) st = st"
| "load_doc_type_dir (Directory name json_files) st =
     fold load_json_file json_files (st\<lparr>logged := logged st @ [Info_loading_from name]\<rparr>)"

text \<open>\<open>_load_legal_database\<close>: it returns nothing; the count is only logged.\<close>

definition load_legal_database ::
  "dir_entry list option \<Rightarrow> pipeline \<Rightarrow> log_event list \<times> pipeline" where
  "load_legal_database docs_dir self =
     (case docs_dir of
        None \<Rightarrow> ([Warning_documents_dir_not_found], self)
      | Some entries \<Rightarrow>
          (let st = fold load_doc_type_dir entries
                      \<lparr>pipe = self, document_count = 0, logged = []\<rparr>
           in (logged st @ [Info_loaded (document_count st)], pipe st)))"

section \<open>The vector store\<close>

text \<open>
  \<open>np.array\<close> of a list of arrays is a matrix when the arrays have one length;
  rows of different lengths raise. The matrix is float32 when every row is, and
  float64 as soon as one row is; of the empty list it is an empty float64 array.
  \<open>shape[1]\<close> is the length of a row.
\<close>

type_synonym matrix = "dtype \<times> vec list"

fun np_array :: "ndarray list \<Rightarrow> error + matrix" where
  "np_array [] = Inr (Float64, [])"
| "np_array (r # rs) =
     (if list_all (\<lambda>x. length (elems x) = length (elems r)) rs
      then Inr (if list_all (\<lambda>x. dtype x = Float32) (r # rs) then Float32 else Float64,
                map elems (r # rs))
      else Inl ValueError)"

fun shape1 :: "vec list \<Rightarrow> error + nat" where
  "shape1 [] = Inl IndexError"
| "shape1 (r # rs) = Inr (length r)"

text \<open>
  \<open>faiss.normalize_L2\<close> is library code. It takes a float32 matrix and raises a
  \<open>TypeError\<close> on any other; each row is multiplied by the inverse of its Euclidean
  norm, and a row of norm zero is left as it is.
\<close>

definition fvec_norm_L2sqr :: "vec \<Rightarrow> real" where
  "fvec_norm_L2sqr x = sum_list (map (\<lambda>xi. xi * xi) x)"

definition fvec_renorm_L2 :: "vec \<Rightarrow> vec" where
  "fvec_renorm_L2 x =
     (let nr = fvec_norm_L2sqr x
      in if nr > 0 then map (\<lambda>xi. xi * (1 / sqrt nr)) x else x)"

definition normalize_L2 :: "matrix \<Rightarrow> error + matrix" where
  "normalize_L2 x =
     (if fst x = Float32 then Inr (Float32, map fvec_renorm_L2 (snd x)) else Inl TypeError)"

text \<open>The Euclidean norm of a vector.\<close>

definition norm_L2 :: "vec \<Rightarrow> real" where
  "norm_L2 x = sqrt (fvec_norm_L2sqr x)"

text \<open>
  \<open>_initialize_vector_store\<close>. The index keeps the rows of the normalized matrix
  it is given by \<open>add\<close>.
\<close>

definition initialize_vector_store :: "pipeline \<Rightarrow> log_event list \<times> (error + pipeline)" where
  "initialize_vector_store self =
     (if legal_documents self = [] then ([Warning_no_documents], Inr self)
      else
        (case np_array (List.map_filter embedding (legal_documents self)) of
           Inl e \<Rightarrow> ([], Inl e)
         | Inr embeddings \<Rightarrow>
             if length (snd embeddings) = 0 then ([Error_no_valid_embeddings], Inr self)
             else
               (case shape1 (snd embeddings) of
                  Inl e \<Rightarrow> ([], Inl e)
                | Inr d \<Rightarrow>
                    (case normalize_L2 embeddings of
                       Inl e \<Rightarrow> ([], Inl e)
                     | Inr normalized \<Rightarrow>
                         ([Info_vector_store_initialized (length (snd embeddings))],
                          Inr (self\<lparr>vector_store :=
                                 Some \<lparr>dimension = d, xb = snd normalized\<rparr>\<rparr>))))))"

section \<open>Construction\<close>

text \<open>
  \<open>_initialize_models\<close>: the five steps in order; an exception of any step is logged
  and raised again.
\<close>

definition initialize_models :: "env \<Rightarrow> pipeline \<Rightarrow> log_event list \<times> (error + pipeline)" where
  "initialize_models env self =
     (case load_embedding_models env self of
        (lg1, Inl e) \<Rightarrow> (lg1 @ [Error_initialization_failed e], Inl e)
      | (lg1, Inr self1) \<Rightarrow>
          (case speech_and_legal_components env (config self1) of
             Some e \<Rightarrow> (lg1 @ [Error_initialization_failed e], Inl e)
           | None \<Rightarrow>
               (case load_legal_database (legal_docs_dir env) self1 of
                  (lg2, self2) \<Rightarrow>
                    (case initialize_vector_store self2 of
                       (lg3, Inl e) \<Rightarrow>
                         (lg1 @ lg2 @ lg3 @ [Error_initialization_failed e], Inl e)
                     | (lg3, Inr self3) \<Rightarrow>
                         (lg1 @ lg2 @ lg3 @ [Info_all_initialized], Inr self3)))))"

text \<open>\<open>__init__\<close>\<close>

definition init :: "env \<Rightarrow> pystr \<Rightarrow> log_event list \<times> (error + pipeline)" where
  "init env config_path =
     (case load_config (read_json env) config_path of
        (lg0, Inl e) \<Rightarrow> (lg0, Inl e)
      | (lg0, Inr cfg) \<Rightarrow>
          (case initialize_models env
                  \<lparr>config = cfg, embeddings_model = None, legal_bert_model = None,
                   vector_store = None, legal_documents = []\<rparr> of
             (lg, r) \<Rightarrow> (lg0 @ [Info_initializing] @ lg, r)))"

section \<open>Search\<close>




section \<open>Example inputs\<close>

text \<open>A model that returns the same float32 vector for every text.\<close>

definition constant_model :: "vec \<Rightarrow> embedder" where
  "constant_model v text = Inr (Array Float32 v)"

text \<open>
  A model whose output for the empty text is the zero vector. Normalizing the output,
  as \<open>normalize_embeddings=True\<close> asks, leaves a zero vector as it is.
\<close>

definition blank_model :: embedder where
  "blank_model text =
     (if text = JStr [] then Inr (Array Float32 [0, 0]) else Inr (Array Float32 [3, 4]))"

text \<open>
  The object as \<open>__init__\<close> leaves it before any model is loaded, the same with the
  general model only, and with both models.
\<close>

definition bare_pipeline :: pipeline where
  "bare_pipeline =
     \<lparr>config = get_default_config, embeddings_model = None, legal_bert_model = None,
      vector_store = None, legal_documents = []\<rparr>"

definition general_only :: pipeline where
  "general_only = bare_pipeline\<lparr>embeddings_model := Some (constant_model [3, 4])\<rparr>"

definition both_models :: pipeline where
  "both_models = general_only\<lparr>legal_bert_model := Some (constant_model [0, 2])\<rparr>"

text \<open>Source records, and a documents directory holding one file of records.\<close>

definition lease_record :: json where
  "lease_record = JObj [(py_str ''content'', JStr (py_str ''Lease law''))]"

definition eviction_record :: json where
  "eviction_record = JObj
     [(py_str ''content'', JStr (py_str ''Eviction notice'')),
      (py_str ''jurisdiction'', JStr (py_str ''CA''))]"

definition empty_record :: json where
  "empty_record = JObj [(py_str ''content'', JStr [])]"

definition statutes :: "json list \<Rightarrow> dir_entry list option" where
  "statutes records =
     Some [Directory (py_str ''statutes'') [(py_str ''a.json'', Inr (JArr records))] ]"

text \<open>The two records as documents, embedded by the general model of \<open>general_only\<close>.\<close>

definition lease_document :: LegalDocument where
  "lease_document =
     \<lparr>content = JStr (py_str ''Lease law''), metadata = JObj [],
      jurisdiction = JStr (py_str ''federal''), legal_domain = JStr (py_str ''general''),
      language = JStr (py_str ''en''), embedding = Some (Array Float32 [3, 4])\<rparr>"

definition eviction_document :: LegalDocument where
  "eviction_document =
     \<lparr>content = JStr (py_str ''Eviction notice''), metadata = JObj [],
      jurisdiction = JStr (py_str ''CA''), legal_domain = JStr (py_str ''general''),
      language = JStr (py_str ''en''), embedding = Some (Array Float32 [3, 4])\<rparr>"

definition empty_document :: LegalDocument where
  "empty_document =
     \<lparr>content = JStr [], metadata = JObj [],
      jurisdiction = JStr (py_str ''federal''), legal_domain = JStr (py_str ''general''),
      language = JStr (py_str ''en''), embedding = Some (Array Float32 [0, 0])\<rparr>"

text \<open>
  A world with no configuration file, the general model on disk, no legal BERT
  directory, and the documents directory above.
\<close>

definition no_config_file :: "pystr \<Rightarrow> error + json" where
  "no_config_file path = Inl FileNotFoundError"

definition no_online_model :: "json \<Rightarrow> error + embedder" where
  "no_online_model name = Inl ModelError"

definition components_load :: "json \<Rightarrow> error option" where
  "components_load cfg = None"

definition example_env :: "json list \<Rightarrow> env" where
  "example_env records =
     \<lparr>read_json = no_config_file,
      sentence_transformers_legal = Some (Inr (constant_model [3, 4])),
      SentenceTransformer = no_online_model,
      legal_bert_base = None,
      speech_and_legal_components = components_load,
      legal_docs_dir = statutes records\<rparr>"

definition example_path :: pystr where
  "example_path = py_str ''./config/rag_config.json''"

text \<open>The object that world constructs from the two records.\<close>

definition constructed_example :: pipeline where
  "constructed_example =
     \<lparr>config = get_default_config,
      embeddings_model = Some (constant_model [3, 4]),
      legal_bert_model = None,
      vector_store = Some \<lparr>dimension = 2, xb = [ [3 / 5, 4 / 5], [3 / 5, 4 / 5] ]\<rparr>,
      legal_documents = [lease_document, eviction_document]\<rparr>"

text \<open>
  The same world with \<open>blank_model\<close> as the general model on disk, and the object it
  constructs from a record with content and a record with empty content.
\<close>

definition blank_env :: "json list \<Rightarrow> env" where
  "blank_env records =
     (example_env records)\<lparr>sentence_transformers_legal := Some (Inr blank_model)\<rparr>"

definition constructed_blank :: pipeline where
  "constructed_blank =
     \<lparr>config = get_default_config,
      embeddings_model = Some blank_model,
      legal_bert_model = None,
      vector_store = Some \<lparr>dimension = 2, xb = [ [3 / 5, 4 / 5], [0, 0] ]\<rparr>,
      legal_documents = [lease_document, empty_document]\<rparr>"


section \<open>Auxiliary facts\<close>

lemmas fixture_defs = constant_model_def bare_pipeline_def general_only_def both_models_def
  lease_record_def eviction_record_def empty_record_def statutes_def no_config_file_def
  no_online_model_def components_load_def example_env_def example_path_def
  lease_document_def eviction_document_def empty_document_def blank_model_def blank_env_def

lemmas run_defs = load_legal_database_def load_json_file_def generate_embedding_def
  embedding_branch_def generate_legal_bert_embedding_def encode_def dict_get_def
  initialize_vector_store_def List.map_filter_simps normalize_L2_def

subsection \<open>Embedding selection\<close>

lemma embedding_branch_no_legal_bert:
  "legal_bert_model self = None \<Longrightarrow>
   embedding_branch self text =
     Inr (case embeddings_model self of Some model \<Rightarrow> General model | None \<Rightarrow> Zero_fallback)"
  by (simp add: embedding_branch_def)

lemma embedding_branch_short:
  "legal_bert_model self = Some legal_bert \<Longrightarrow> py_len text = Inr n \<Longrightarrow> n < 512 \<Longrightarrow>
   embedding_branch self text = Inr (Legal_BERT legal_bert)"
  by (simp add: embedding_branch_def)

lemma embedding_branch_long:
  "legal_bert_model self = Some legal_bert \<Longrightarrow> py_len text = Inr n \<Longrightarrow> \<not> n < 512 \<Longrightarrow>
   embedding_branch self text =
     Inr (case embeddings_model self of Some model \<Rightarrow> General model | None \<Rightarrow> Zero_fallback)"
  by (simp add: embedding_branch_def)

subsection \<open>Ingestion\<close>

lemma load_documents_append:
  "load_documents (xs @ ys) st =
     (case load_documents xs st of
        (None, st') \<Rightarrow> load_documents ys st'
      | (Some e, st') \<Rightarrow> (Some e, st'))"
  by (induction xs arbitrary: st) (auto split: sum.splits prod.splits option.splits)

lemma load_documents_preserves:
  assumes logging: "\<And>st lg. P st \<Longrightarrow> P (st\<lparr>logged := logged st @ lg\<rparr>)"
    and appending: "\<And>st doc v lg. P st \<Longrightarrow>
      P (st\<lparr>pipe := (pipe st)\<lparr>legal_documents :=
                 legal_documents (pipe st) @ [doc\<lparr>embedding := Some v\<rparr>]\<rparr>,
            document_count := Suc (document_count st),
            logged := logged st @ lg\<rparr>)"
  shows "P st \<Longrightarrow> P (snd (load_documents docs st))"
proof (induction docs arbitrary: st)
  case Nil
  then show ?case by simp
next
  case (Cons doc_data rest)
  show ?case
  proof (cases "new_legal_document doc_data")
    case (Inl e)
    with Cons.prems show ?thesis by simp
  next
    case (Inr legal_doc)
    obtain lg r where g: "generate_embedding (pipe st) (content legal_doc) = (lg, r)"
      by (cases "generate_embedding (pipe st) (content legal_doc)")
    show ?thesis
    proof (cases r)
      case (Inl e)
      with Inr g logging [OF Cons.prems] show ?thesis by simp
    next
      case v: (Inr v)
      from Cons.IH [OF appending [OF Cons.prems] ] Inr g v show ?thesis by simp
    qed
  qed
qed

lemma load_json_file_preserves:
  assumes logging: "\<And>st lg. P st \<Longrightarrow> P (st\<lparr>logged := logged st @ lg\<rparr>)"
    and appending: "\<And>st doc v lg. P st \<Longrightarrow>
      P (st\<lparr>pipe := (pipe st)\<lparr>legal_documents :=
                 legal_documents (pipe st) @ [doc\<lparr>embedding := Some v\<rparr>]\<rparr>,
            document_count := Suc (document_count st),
            logged := logged st @ lg\<rparr>)"
  shows "P st \<Longrightarrow> P (load_json_file json_file st)"
proof -
  assume st: "P st"
  have docs: "P (snd (load_documents docs st))" for docs
    using logging appending st by (rule load_documents_preserves)
  show ?thesis
  proof (cases "snd json_file")
    case (Inl e)
    then show ?thesis by (simp add: load_json_file_def logging [OF st])
  next
    case (Inr documents)
    show ?thesis
    proof (cases "py_iter documents")
      case (Inl e)
      with Inr show ?thesis by (simp add: load_json_file_def logging [OF st])
    next
      case it: (Inr ds)
      obtain r st' where l: "load_documents ds st = (r, st')"
        by (cases "load_documents ds st")
      with docs [of ds] have "P st'" by simp
      with Inr it l logging [of st'] show ?thesis
        by (cases r) (simp_all add: load_json_file_def)
    qed
  qed
qed

lemma fold_load_json_file_preserves:
  assumes logging: "\<And>st lg. P st \<Longrightarrow> P (st\<lparr>logged := logged st @ lg\<rparr>)"
    and appending: "\<And>st doc v lg. P st \<Longrightarrow>
      P (st\<lparr>pipe := (pipe st)\<lparr>legal_documents :=
                 legal_documents (pipe st) @ [doc\<lparr>embedding := Some v\<rparr>]\<rparr>,
            document_count := Suc (document_count st),
            logged := logged st @ lg\<rparr>)"
  shows "P st \<Longrightarrow> P (fold load_json_file json_files st)"
proof (induction json_files arbitrary: st)
  case Nil
  then show ?case by simp
next
  case (Cons f fs)
  have "P (load_json_file f st)"
    using logging appending Cons.prems by (rule load_json_file_preserves)
  then show ?case by (simp add: Cons.IH)
qed

lemma load_doc_type_dir_preserves:
  assumes logging: "\<And>st lg. P st \<Longrightarrow> P (st\<lparr>logged := logged st @ lg\<rparr>)"
    and appending: "\<And>st doc v lg. P st \<Longrightarrow>
      P (st\<lparr>pipe := (pipe st)\<lparr>legal_documents :=
                 legal_documents (pipe st) @ [doc\<lparr>embedding := Some v\<rparr>]\<rparr>,
            document_count := Suc (document_count st),
            logged := logged st @ lg\<rparr>)"
  shows "P st \<Longrightarrow> P (load_doc_type_dir entry st)"
proof (cases entry)
  case (Plain_file name)
  assume "P st"
  with Plain_file show ?thesis by simp
next
  case (Directory name json_files)
  assume "P st"
  then have "P (st\<lparr>logged := logged st @ [Info_loading_from name]\<rparr>)" by (rule logging)
  with logging appending
  have "P (fold load_json_file json_files (st\<lparr>logged := logged st @ [Info_loading_from name]\<rparr>))"
    by (rule fold_load_json_file_preserves)
  with Directory show ?thesis by simp
qed

lemma fold_load_doc_type_dir_preserves:
  assumes logging: "\<And>st lg. P st \<Longrightarrow> P (st\<lparr>logged := logged st @ lg\<rparr>)"
    and appending: "\<And>st doc v lg. P st \<Longrightarrow>
      P (st\<lparr>pipe := (pipe st)\<lparr>legal_documents :=
                 legal_documents (pipe st) @ [doc\<lparr>embedding := Some v\<rparr>]\<rparr>,
            document_count := Suc (document_count st),
            logged := logged st @ lg\<rparr>)"
  shows "P st \<Longrightarrow> P (fold load_doc_type_dir entries st)"
proof (induction entries arbitrary: st)
  case Nil
  then show ?case by simp
next
  case (Cons entry rest)
  have "P (load_doc_type_dir entry st)"
    using logging appending Cons.prems by (rule load_doc_type_dir_preserves)
  then show ?case by (simp add: Cons.IH)
qed

text \<open>What ingestion keeps: the configuration, the models, the store; and every
  document it leaves in the list carries an embedding when those before did.\<close>

lemma load_legal_database_keeps:
  assumes "load_legal_database docs_dir self = (lg, self')"
  shows "config self' = config self"
    and "embeddings_model self' = embeddings_model self"
    and "legal_bert_model self' = legal_bert_model self"
    and "vector_store self' = vector_store self"
    and "list_all (\<lambda>doc. embedding doc \<noteq> None) (legal_documents self) \<Longrightarrow>
         list_all (\<lambda>doc. embedding doc \<noteq> None) (legal_documents self')"
proof -
  let ?P = "\<lambda>st. config (pipe st) = config self \<and>
      embeddings_model (pipe st) = embeddings_model self \<and>
      legal_bert_model (pipe st) = legal_bert_model self \<and>
      vector_store (pipe st) = vector_store self \<and>
      (list_all (\<lambda>doc. embedding doc \<noteq> None) (legal_documents self) \<longrightarrow>
       list_all (\<lambda>doc. embedding doc \<noteq> None) (legal_documents (pipe st)))"
  have start: "?P \<lparr>pipe = self, document_count = 0, logged = []\<rparr>" by simp
  have "?P (fold load_doc_type_dir entries \<lparr>pipe = self, document_count = 0, logged = []\<rparr>)"
    for entries
    by (rule fold_load_doc_type_dir_preserves [where P = ?P, OF _ _ start]) simp_all
  with assms have "config self' = config self \<and>
      embeddings_model self' = embeddings_model self \<and>
      legal_bert_model self' = legal_bert_model self \<and>
      vector_store self' = vector_store self \<and>
      (list_all (\<lambda>doc. embedding doc \<noteq> None) (legal_documents self) \<longrightarrow>
       list_all (\<lambda>doc. embedding doc \<noteq> None) (legal_documents self'))"
    by (cases docs_dir) (auto simp: load_legal_database_def Let_def)
  then show "config self' = config self"
    and "embeddings_model self' = embeddings_model self"
    and "legal_bert_model self' = legal_bert_model self"
    and "vector_store self' = vector_store self"
    and "list_all (\<lambda>doc. embedding doc \<noteq> None) (legal_documents self) \<Longrightarrow>
         list_all (\<lambda>doc. embedding doc \<noteq> None) (legal_documents self')"
    by simp_all
qed

lemma load_documents_extends:
  "\<exists>new. legal_documents (pipe (snd (load_documents docs st))) =
          legal_documents (pipe st) @ new"
proof -
  let ?P = "\<lambda>st'. \<exists>new. legal_documents (pipe st') = legal_documents (pipe st) @ new"
  have "?P st" by simp
  then show ?thesis
    by (rule load_documents_preserves [where P = ?P, rotated 2]) auto
qed

lemma load_documents_raises:
  assumes "load_documents [bad] st1 = (Some e, st2)"
  shows "load_documents (bad # rest) st1 = (Some e, st2) \<and> pipe st2 = pipe st1 \<and>
         document_count st2 = document_count st1"
  using assms by (auto split: sum.splits prod.splits)

subsection \<open>Normalization\<close>

lemma fvec_norm_L2sqr_nonneg: "0 \<le> fvec_norm_L2sqr x"
  by (induction x) (simp_all add: fvec_norm_L2sqr_def)

lemma fvec_norm_L2sqr_zero_iff: "fvec_norm_L2sqr x = 0 \<longleftrightarrow> list_all (\<lambda>xi. xi = 0) x"
proof (induction x)
  case Nil
  then show ?case by (simp add: fvec_norm_L2sqr_def)
next
  case (Cons a x)
  have "0 \<le> a * a" by simp
  moreover have "0 \<le> fvec_norm_L2sqr x" by (rule fvec_norm_L2sqr_nonneg)
  moreover have "fvec_norm_L2sqr (a # x) = a * a + fvec_norm_L2sqr x"
    by (simp add: fvec_norm_L2sqr_def)
  ultimately have "fvec_norm_L2sqr (a # x) = 0 \<longleftrightarrow> a * a = 0 \<and> fvec_norm_L2sqr x = 0"
    by linarith
  with Cons.IH show ?case by simp
qed

lemma fvec_norm_L2sqr_scale:
  "fvec_norm_L2sqr (map (\<lambda>xi. xi * c) x) = c * c * fvec_norm_L2sqr x"
  by (induction x) (simp_all add: fvec_norm_L2sqr_def algebra_simps)

lemma fvec_renorm_L2_zero: "list_all (\<lambda>xi. xi = 0) x \<Longrightarrow> fvec_renorm_L2 x = x"
  using fvec_norm_L2sqr_zero_iff [of x] by (simp add: fvec_renorm_L2_def)

lemma fvec_renorm_L2_unit:
  assumes "\<not> list_all (\<lambda>xi. xi = 0) x"
  shows "norm_L2 (fvec_renorm_L2 x) = 1"
proof -
  let ?nr = "fvec_norm_L2sqr x"
  from assms have "?nr \<noteq> 0" by (simp add: fvec_norm_L2sqr_zero_iff)
  with fvec_norm_L2sqr_nonneg [of x] have pos: "0 < ?nr" by simp
  then have r: "fvec_renorm_L2 x = map (\<lambda>xi. xi * (1 / sqrt ?nr)) x"
    by (simp add: fvec_renorm_L2_def)
  from pos have "(1 / sqrt ?nr) * (1 / sqrt ?nr) * ?nr = 1"
    by (simp add: field_simps)
  then have "fvec_norm_L2sqr (fvec_renorm_L2 x) = 1"
    by (simp only: r fvec_norm_L2sqr_scale)
  then show ?thesis by (simp add: norm_L2_def)
qed

lemma sqrt_25: "sqrt 25 = 5"
  by (rule real_sqrt_unique) simp_all

lemma norm_L2_zero_vector: "norm_L2 [0, 0] = 0"
  by (simp add: norm_L2_def fvec_norm_L2sqr_def)

subsection \<open>The built index\<close>

lemma np_array_Inr:
  assumes "np_array arrays = Inr m"
  shows "snd m = map elems arrays"
    and "arrays \<noteq> [] \<Longrightarrow> fst m = Float32 \<Longrightarrow> list_all (\<lambda>a. dtype a = Float32) arrays"
  using assms by (cases arrays; auto split: if_splits)+

text \<open>
  A store that appears is built from the embeddings of the documents, all of them
  float32: the all-zero fallback of \<open>_generate_embedding\<close>, a float64 array, is in
  no index.
\<close>

lemma initialize_vector_store_built:
  assumes "initialize_vector_store self = (lg, Inr self')"
    and "vector_store self = None"
    and "vector_store self' = Some index"
  shows "legal_documents self' = legal_documents self"
    and "xb index =
      map (\<lambda>a. fvec_renorm_L2 (elems a)) (List.map_filter embedding (legal_documents self))"
    and "list_all (\<lambda>a. dtype a = Float32) (List.map_filter embedding (legal_documents self))"
proof -
  let ?arrays = "List.map_filter embedding (legal_documents self)"
  from assms have ne: "legal_documents self \<noteq> []"
    by (auto simp: initialize_vector_store_def)
  from assms ne obtain m where m: "np_array ?arrays = Inr m"
    by (cases "np_array ?arrays") (auto simp: initialize_vector_store_def)
  from assms ne m have mne: "snd m \<noteq> []"
    by (auto simp: initialize_vector_store_def)
  from assms ne m mne obtain d where d: "shape1 (snd m) = Inr d"
    by (cases "shape1 (snd m)") (auto simp: initialize_vector_store_def)
  from assms ne m mne d obtain normalized where n: "normalize_L2 m = Inr normalized"
    by (cases "normalize_L2 m") (auto simp: initialize_vector_store_def)
  then have f32: "fst m = Float32" and rows: "snd normalized = map fvec_renorm_L2 (snd m)"
    by (auto simp: normalize_L2_def split: if_splits)
  from assms ne m mne d n
  have self': "self' = self\<lparr>vector_store := Some \<lparr>dimension = d, xb = snd normalized\<rparr>\<rparr>"
    by (auto simp: initialize_vector_store_def)
  from np_array_Inr(1) [OF m] mne have ane: "?arrays \<noteq> []" by auto
  from self' show "legal_documents self' = legal_documents self" by simp
  from self' assms(3) rows np_array_Inr(1) [OF m]
  show "xb index = map (\<lambda>a. fvec_renorm_L2 (elems a)) ?arrays"
    by (auto simp: comp_def)
  from np_array_Inr(2) [OF m ane f32]
  show "list_all (\<lambda>a. dtype a = Float32) ?arrays" .
qed

lemma initialize_vector_store_keeps:
  "initialize_vector_store self = (lg, Inr self') \<Longrightarrow> config self' = config self"
  by (auto simp: initialize_vector_store_def split: if_splits sum.splits)

subsection \<open>Construction\<close>

lemma load_general_model_keeps:
  "load_general_model env self = (lg, Inr self') \<Longrightarrow>
   config self' = config self \<and> vector_store self' = vector_store self \<and>
   legal_documents self' = legal_documents self"
  by (auto simp: load_general_model_def split: option.splits sum.splits)

lemma load_legal_bert_keeps:
  "load_legal_bert env self = (lg, Inr self') \<Longrightarrow>
   config self' = config self \<and> vector_store self' = vector_store self \<and>
   legal_documents self' = legal_documents self"
  by (auto simp: load_legal_bert_def split: option.splits sum.splits)

lemma load_embedding_models_keeps:
  assumes "load_embedding_models env self = (lg, Inr self')"
  shows "config self' = config self \<and> vector_store self' = vector_store self \<and>
   legal_documents self' = legal_documents self"
proof -
  from assms obtain lg1 self1 lg2 where
    g: "load_general_model env self = (lg1, Inr self1)"
    and b: "load_legal_bert env self1 = (lg2, Inr self')"
    by (auto simp: load_embedding_models_def split: prod.splits sum.splits)
  from load_general_model_keeps [OF g] load_legal_bert_keeps [OF b] show ?thesis by simp
qed

lemma init_steps:
  assumes "init env config_path = (lg, Inr self)"
  obtains lg0 cfg lg1 self1 lg2 self2 lg3 where
    "load_config (read_json env) config_path = (lg0, Inr cfg)"
    "load_embedding_models env
       \<lparr>config = cfg, embeddings_model = None, legal_bert_model = None,
        vector_store = None, legal_documents = []\<rparr> = (lg1, Inr self1)"
    "load_legal_database (legal_docs_dir env) self1 = (lg2, self2)"
    "initialize_vector_store self2 = (lg3, Inr self)"
  using assms
  by (auto simp: init_def initialize_models_def split: prod.splits sum.splits option.splits)

subsection \<open>Search\<close>











subsection \<open>The example world\<close>

lemma init_example:
  "init (example_env [lease_record, eviction_record]) example_path =
    ([Warning_config_not_found example_path, Info_initializing,
      Info_loaded_general_model, Warning_legal_bert_not_found,
      Info_loading_from (py_str ''statutes''), Info_loaded 2,
      Info_vector_store_initialized 2, Info_all_initialized],
     Inr constructed_example)"
  by (simp add: init_def load_config_def initialize_models_def load_embedding_models_def
      load_general_model_def load_legal_bert_def constructed_example_def
      example_env_def statutes_def no_config_file_def components_load_def
      lease_record_def eviction_record_def lease_document_def eviction_document_def
      load_legal_database_def load_json_file_def generate_embedding_def
      embedding_branch_def encode_def dict_get_def
      initialize_vector_store_def List.map_filter_simps normalize_L2_def
      fvec_renorm_L2_def fvec_norm_L2sqr_def sqrt_25 constant_model_def [abs_def])

lemma init_blank:
  "init (blank_env [lease_record, empty_record]) example_path =
    ([Warning_config_not_found example_path, Info_initializing,
      Info_loaded_general_model, Warning_legal_bert_not_found,
      Info_loading_from (py_str ''statutes''), Info_loaded 2,
      Info_vector_store_initialized 2, Info_all_initialized],
     Inr constructed_blank)"
  by (simp add: init_def load_config_def initialize_models_def load_embedding_models_def
      load_general_model_def load_legal_bert_def constructed_blank_def blank_env_def
      example_env_def statutes_def no_config_file_def components_load_def
      lease_record_def empty_record_def lease_document_def empty_document_def
      load_legal_database_def load_json_file_def generate_embedding_def
      embedding_branch_def encode_def dict_get_def
      initialize_vector_store_def List.map_filter_simps normalize_L2_def
      fvec_renorm_L2_def fvec_norm_L2sqr_def sqrt_25 blank_model_def [abs_def])

text \<open>
  With no model loaded the build raises: the fallback array is float64, which
  \<open>faiss.normalize_L2\<close> refuses.
\<close>

lemma fallback_build_raises:
  "snd (initialize_vector_store
     (snd (load_legal_database (statutes [lease_record]) bare_pipeline))) = Inl TypeError"
  by (simp add: fixture_defs run_defs zeros_def)

lemma load_lease_record:
  "load_documents [lease_record] \<lparr>pipe = general_only, document_count = 0, logged = []\<rparr> =
     (None, \<lparr>pipe = general_only\<lparr>legal_documents := [lease_document]\<rparr>,
             document_count = 1, logged = []\<rparr>)"
  by (simp add: fixture_defs run_defs)

section \<open>The claims\<close>

subsection \<open>C1\<close>

text \<open>
  C1, as amended. If neither the legal BERT model nor the general model is loaded,
  the embedding operation does not fail: it takes the last branch, logs an error and
  returns the all-zero vector of 384 components, with no flag on the result; and
  ingestion stores that vector as the embedding of the document and goes on with the
  next record, as it does for any other embedding.
\<close>

theorem c1_zero_vector_fallback:
  assumes "legal_bert_model (pipe st) = None"
    and "embeddings_model (pipe st) = None"
    and "new_legal_document doc_data = Inr legal_doc"
  shows "embedding_branch (pipe st) text = Inr Zero_fallback \<and>
    generate_embedding (pipe st) text = ([Error_no_embedding_model], Inr (zeros 384)) \<and>
    load_documents (doc_data # rest) st =
      load_documents rest
        (st\<lparr>pipe := (pipe st)\<lparr>legal_documents :=
               legal_documents (pipe st) @ [legal_doc\<lparr>embedding := Some (zeros 384)\<rparr>]\<rparr>,
            document_count := Suc (document_count st),
            logged := logged st @ [Error_no_embedding_model]\<rparr>)"
proof -
  from assms(1,2) have b: "embedding_branch (pipe st) t = Inr Zero_fallback" for t
    by (simp add: embedding_branch_def)
  then have g: "generate_embedding (pipe st) t = ([Error_no_embedding_model], Inr (zeros 384))"
    for t
    by (simp add: generate_embedding_def)
  from assms(3) g show ?thesis by (simp add: b)
qed

theorem c1_zero_vector_fallback_witness:
  "generate_embedding bare_pipeline (JStr (py_str ''Lease law'')) =
     ([Error_no_embedding_model], Inr (zeros 384)) \<and>
   document_count (snd (load_documents [lease_record]
     \<lparr>pipe = bare_pipeline, document_count = 0, logged = []\<rparr>)) = 1"
  using c1_zero_vector_fallback
      [of "\<lparr>pipe = bare_pipeline, document_count = 0, logged = []\<rparr>"
        lease_record _ "JStr (py_str ''Lease law'')" "[]"]
  by (simp add: bare_pipeline_def lease_record_def)

text \<open>
  C1 as the specification states it fails: with no model loaded the operation returns
  a vector instead of failing, and ingestion of one record stores the zero vector as
  its embedding.
\<close>

theorem c1_no_failure_counterexample:
  "snd (generate_embedding bare_pipeline (JStr (py_str ''Lease law''))) = Inr (zeros 384) \<and>
   map embedding (legal_documents
     (snd (load_legal_database (statutes [lease_record]) bare_pipeline))) = [Some (zeros 384)]"
  by (simp add: fixture_defs run_defs)

subsection \<open>C2\<close>

text \<open>
  C2. For every text the selector checks its conditions in a fixed order: when the
  legal BERT model is loaded and the text has fewer than 512 characters, the legal
  BERT model computes the embedding; otherwise, when the general model is loaded,
  the general model computes it.
\<close>

theorem c2_embedding_priority:
  "(legal_bert_model self = Some legal_bert \<and> length text < 512 \<longrightarrow>
      embedding_branch self (JStr text) = Inr (Legal_BERT legal_bert) \<and>
      generate_embedding self (JStr text) =
        ([], generate_legal_bert_embedding legal_bert (JStr text))) \<and>
   (\<not> (legal_bert_model self \<noteq> None \<and> length text < 512) \<and>
    embeddings_model self = Some model \<longrightarrow>
      embedding_branch self (JStr text) = Inr (General model) \<and>
      generate_embedding self (JStr text) = ([], encode model (JStr text)))"
proof (intro conjI impI)
  assume h: "legal_bert_model self = Some legal_bert \<and> length text < 512"
  then show b: "embedding_branch self (JStr text) = Inr (Legal_BERT legal_bert)"
    by (simp add: embedding_branch_short)
  show "generate_embedding self (JStr text) =
        ([], generate_legal_bert_embedding legal_bert (JStr text))"
    by (simp add: generate_embedding_def b)
next
  assume h: "\<not> (legal_bert_model self \<noteq> None \<and> length text < 512) \<and>
    embeddings_model self = Some model"
  show b: "embedding_branch self (JStr text) = Inr (General model)"
  proof (cases "legal_bert_model self")
    case None
    with h show ?thesis by (simp add: embedding_branch_no_legal_bert)
  next
    case (Some lb)
    with h have "\<not> length text < 512" by simp
    with Some h show ?thesis by (simp add: embedding_branch_long [where n = "length text"])
  qed
  show "generate_embedding self (JStr text) = ([], encode model (JStr text))"
    by (simp add: generate_embedding_def b)
qed

theorem c2_embedding_priority_witness:
  "generate_embedding both_models (JStr (py_str ''Lease law'')) =
     ([], Inr (Array Float32 [0, 2])) \<and>
   generate_embedding both_models (JStr (replicate 512 97)) =
     ([], Inr (Array Float32 [3, 4])) \<and>
   generate_embedding general_only (JStr (py_str ''Lease law'')) =
     ([], Inr (Array Float32 [3, 4]))"
  using c2_embedding_priority
      [of both_models "constant_model [0, 2]" "py_str ''Lease law''" "constant_model [3, 4]"]
    c2_embedding_priority
      [of both_models "constant_model [0, 2]" "replicate 512 97" "constant_model [3, 4]"]
    c2_embedding_priority
      [of general_only "constant_model [0, 2]" "py_str ''Lease law''" "constant_model [3, 4]"]
  by (simp add: both_models_def general_only_def bare_pipeline_def constant_model_def
      generate_legal_bert_embedding_def encode_def)

subsection \<open>C3\<close>

text \<open>
  C3, as amended. During ingestion a record with empty content is not rejected:
  wherever it stands in a file whose earlier records loaded, it is embedded and
  appended to the documents like any other record, it is counted in the document
  count, and the records after it are ingested from there.
\<close>

theorem c3_empty_content_ingested:
  assumes "load_documents before st = (None, st1)"
    and "new_legal_document (JObj kvs) = Inr legal_doc"
    and "content legal_doc = JStr []"
    and "generate_embedding (pipe st1) (JStr []) = (lg, Inr v)"
  shows "load_documents (before @ JObj kvs # rest) st =
      load_documents rest
        (st1\<lparr>pipe := (pipe st1)\<lparr>legal_documents :=
                legal_documents (pipe st1) @ [legal_doc\<lparr>embedding := Some v\<rparr>]\<rparr>,
             document_count := Suc (document_count st1),
             logged := logged st1 @ lg\<rparr>)"
proof -
  from assms(1) have "load_documents (before @ JObj kvs # rest) st =
      load_documents (JObj kvs # rest) st1"
    by (simp add: load_documents_append)
  also from assms(2-4) have "\<dots> = load_documents rest
        (st1\<lparr>pipe := (pipe st1)\<lparr>legal_documents :=
                legal_documents (pipe st1) @ [legal_doc\<lparr>embedding := Some v\<rparr>]\<rparr>,
             document_count := Suc (document_count st1),
             logged := logged st1 @ lg\<rparr>)"
    by (simp del: new_legal_document.simps)
  finally show ?thesis .
qed

theorem c3_empty_content_ingested_witness:
  "map content (legal_documents (pipe (snd (load_documents
      [lease_record, empty_record, eviction_record]
      \<lparr>pipe = general_only, document_count = 0, logged = []\<rparr>)))) =
     [JStr (py_str ''Lease law''), JStr [], JStr (py_str ''Eviction notice'')] \<and>
   document_count (snd (load_documents [lease_record, empty_record, eviction_record]
      \<lparr>pipe = general_only, document_count = 0, logged = []\<rparr>)) = 3"
proof -
  let ?st1 = "\<lparr>pipe = general_only\<lparr>legal_documents := [lease_document]\<rparr>,
              document_count = 1, logged = []\<rparr>"
  let ?doc = "\<lparr>content = JStr [], metadata = JObj [],
      jurisdiction = JStr (py_str ''federal''), legal_domain = JStr (py_str ''general''),
      language = JStr (py_str ''en''), embedding = None\<rparr>"
  have d: "new_legal_document (JObj [(py_str ''content'', JStr [])]) = Inr ?doc"
    by (simp add: dict_get_def)
  have c: "content ?doc = JStr []" by simp
  have g: "generate_embedding (pipe ?st1) (JStr []) = ([], Inr (Array Float32 [3, 4]))"
    by (simp add: fixture_defs run_defs)
  from c3_empty_content_ingested [OF load_lease_record d c g, of "[eviction_record]"]
  show ?thesis
    by (simp add: fixture_defs run_defs)
qed

text \<open>
  C3 as the specification states it fails: a file with an empty-content record and a
  second record loads two documents, the first with the empty content.
\<close>

theorem c3_not_rejected_counterexample:
  "fst (load_legal_database (statutes [empty_record, lease_record]) general_only) =
     [Info_loading_from (py_str ''statutes''), Info_loaded 2] \<and>
   map content (legal_documents
     (snd (load_legal_database (statutes [empty_record, lease_record]) general_only))) =
     [JStr [], JStr (py_str ''Lease law'')]"
  by (simp add: fixture_defs run_defs)

subsection \<open>C4\<close>

text \<open>
  C4, as amended. A record at which loading raises ends its own file: the exception
  is logged with the name of the file, the documents appended before it stay, the
  records after it in that file are not ingested, neither the pipeline nor the
  document count changes at the bad record, and the files that follow are still
  processed. No count of failures is kept.
\<close>

theorem c4_malformed_record_ends_file:
  assumes "load_documents before st = (None, st1)"
    and "load_documents [bad] st1 = (Some e, st2)"
  shows "load_json_file (name, Inr (JArr (before @ bad # rest))) st =
      st2\<lparr>logged := logged st2 @ [Error_loading name e]\<rparr> \<and>
    pipe st2 = pipe st1 \<and> document_count st2 = document_count st1 \<and>
    fold load_json_file ((name, Inr (JArr (before @ bad # rest))) # json_files) st =
      fold load_json_file json_files (st2\<lparr>logged := logged st2 @ [Error_loading name e]\<rparr>)"
proof -
  from load_documents_raises [OF assms(2), of rest]
  have r: "load_documents (bad # rest) st1 = (Some e, st2)"
    and same: "pipe st2 = pipe st1" "document_count st2 = document_count st1"
    by simp_all
  from assms(1) r have "load_documents (before @ bad # rest) st = (Some e, st2)"
    by (simp add: load_documents_append)
  then have "load_json_file (name, Inr (JArr (before @ bad # rest))) st =
      st2\<lparr>logged := logged st2 @ [Error_loading name e]\<rparr>"
    by (simp add: load_json_file_def)
  with same show ?thesis by simp
qed

theorem c4_malformed_record_ends_file_witness:
  "map content (legal_documents (pipe (load_json_file
      (py_str ''a.json'', Inr (JArr [lease_record, JInt 7, eviction_record]))
      \<lparr>pipe = general_only, document_count = 0, logged = []\<rparr>))) =
     [JStr (py_str ''Lease law'')] \<and>
   logged (load_json_file
      (py_str ''a.json'', Inr (JArr [lease_record, JInt 7, eviction_record]))
      \<lparr>pipe = general_only, document_count = 0, logged = []\<rparr>) =
     [Error_loading (py_str ''a.json'') AttributeError]"
proof -
  let ?st1 = "\<lparr>pipe = general_only\<lparr>legal_documents := [lease_document]\<rparr>,
              document_count = 1, logged = []\<rparr>"
  have bad: "load_documents [JInt 7] ?st1 = (Some AttributeError, ?st1)" by simp
  from c4_malformed_record_ends_file
    [OF load_lease_record bad, of "py_str ''a.json''" "[eviction_record]" "[]"]
  show ?thesis by (simp add: lease_document_def)
qed

text \<open>
  C4 as the specification states it fails: a bad record between two good ones halts
  the rest of its file, so the record after it is never ingested, and what is
  reported is the count of loaded documents.
\<close>

theorem c4_remainder_halted_counterexample:
  "fst (load_legal_database (statutes [lease_record, JInt 7, eviction_record]) general_only) =
     [Info_loading_from (py_str ''statutes''),
      Error_loading (py_str ''a.json'') AttributeError, Info_loaded 1] \<and>
   map content (legal_documents
     (snd (load_legal_database (statutes [lease_record, JInt 7, eviction_record])
        general_only))) =
     [JStr (py_str ''Lease law'')]"
  by (simp add: fixture_defs run_defs)

subsection \<open>C5\<close>

text \<open>
  C5, as amended. In a constructed pipeline whose vector index was built, every
  stored vector is the L2-normalization of the embedding of the document at its
  position, a float32 array a model returned and never the all-zero fallback: in
  exact arithmetic it has Euclidean norm 1 when that embedding has a non-zero
  component, and an all-zero embedding is stored unchanged.
\<close>

theorem c5_stored_vectors_normalized:
  assumes "init env config_path = (lg, Inr self)"
    and "vector_store self = Some index"
    and "i < length (xb index)"
  shows "\<exists>a. embedding (legal_documents self ! i) = Some a \<and>
    dtype a = Float32 \<and> a \<noteq> zeros 384 \<and>
    xb index ! i = fvec_renorm_L2 (elems a) \<and>
    (if list_all (\<lambda>x. x = 0) (elems a) then xb index ! i = elems a
     else norm_L2 (xb index ! i) = 1)"
proof -
  from assms(1) obtain lg0 cfg lg1 self1 lg2 self2 lg3 where
    models: "load_embedding_models env
       \<lparr>config = cfg, embeddings_model = None, legal_bert_model = None,
        vector_store = None, legal_documents = []\<rparr> = (lg1, Inr self1)"
    and db: "load_legal_database (legal_docs_dir env) self1 = (lg2, self2)"
    and vs: "initialize_vector_store self2 = (lg3, Inr self)"
    by (rule init_steps)
  from load_embedding_models_keeps [OF models]
  have s1: "vector_store self1 = None" "legal_documents self1 = []" by simp_all
  from load_legal_database_keeps(4) [OF db] s1 have none: "vector_store self2 = None" by simp
  from load_legal_database_keeps(5) [OF db] s1
  have all: "list_all (\<lambda>doc. embedding doc \<noteq> None) (legal_documents self2)" by simp
  let ?arrays = "List.map_filter embedding (legal_documents self2)"
  from initialize_vector_store_built [OF vs none assms(2)]
  have docs: "legal_documents self = legal_documents self2"
    and xb: "xb index = map (\<lambda>a. fvec_renorm_L2 (elems a)) ?arrays"
    and f32: "list_all (\<lambda>a. dtype a = Float32) ?arrays"
    by simp_all
  have "map Some (List.map_filter embedding ds) = map embedding ds"
    if "list_all (\<lambda>doc. embedding doc \<noteq> None) ds" for ds :: "LegalDocument list"
    using that by (induction ds) (auto simp: List.map_filter_simps)
  from this [OF all] docs have some: "map Some ?arrays = map embedding (legal_documents self)"
    by simp
  from xb assms(3) have i: "i < length ?arrays" by simp
  let ?a = "?arrays ! i"
  from arg_cong [OF some, of length] i have "i < length (legal_documents self)" by simp
  with arg_cong [OF some, of "\<lambda>l. l ! i"] i
  have emb: "embedding (legal_documents self ! i) = Some ?a" by simp
  from f32 i have dt: "dtype ?a = Float32" by (simp add: list_all_length)
  then have nz: "?a \<noteq> zeros 384" by (auto simp: zeros_def)
  from xb i have row: "xb index ! i = fvec_renorm_L2 (elems ?a)" by simp
  then have "if list_all (\<lambda>x. x = 0) (elems ?a) then xb index ! i = elems ?a
     else norm_L2 (xb index ! i) = 1"
    by (simp add: fvec_renorm_L2_zero fvec_renorm_L2_unit)
  with emb dt nz row show ?thesis by blast
qed

theorem c5_stored_vectors_normalized_witness:
  "snd (init (blank_env [lease_record, empty_record]) example_path) = Inr constructed_blank \<and>
   vector_store constructed_blank =
     Some \<lparr>dimension = 2, xb = [ [3 / 5, 4 / 5], [0, 0] ]\<rparr> \<and>
   norm_L2 [3 / 5, 4 / 5] = 1"
proof -
  let ?index = "\<lparr>dimension = 2, xb = [ [3 / 5, 4 / 5], [0, 0 :: real] ]\<rparr>"
  have store: "vector_store constructed_blank = Some ?index"
    by (simp add: constructed_blank_def)
  have i: "0 < length (xb ?index)" by simp
  have r: "fvec_renorm_L2 [3, 4] = [3 / 5, 4 / 5]"
    by (simp add: fvec_renorm_L2_def fvec_norm_L2sqr_def sqrt_25)
  from c5_stored_vectors_normalized [OF init_blank store i]
  have "norm_L2 [3 / 5, 4 / 5] = 1"
    by (simp add: constructed_blank_def lease_document_def r)
  with init_blank store show ?thesis by simp
qed

text \<open>
  C5 as the specification states it fails: a pipeline constructed with a general
  model whose output for the empty text is the zero vector, from a record with
  content and a record with empty content, has an index whose second vector is the
  zero vector, of norm 0.
\<close>

theorem c5_zero_norm_counterexample:
  "map_sum id vector_store
     (snd (init (blank_env [lease_record, empty_record]) example_path)) =
     Inr (Some \<lparr>dimension = 2, xb = [ [3 / 5, 4 / 5], [0, 0] ]\<rparr>) \<and>
   norm_L2 [0, 0] = 0"
  by (simp add: init_blank constructed_blank_def norm_L2_zero_vector)

subsection \<open>C6\<close>

text \<open>
  C6. In a constructed pipeline whose vector index was built, the index holds as
  many vectors as there are documents, and the vector at each position is the
  normalized embedding of the document at the same position of the document list.
\<close>

theorem c6_index_parallel_to_documents:
  assumes "init env config_path = (lg, Inr self)"
    and "vector_store self = Some index"
  shows "length (xb index) = length (legal_documents self) \<and>
    map Some (xb index) =
      map (\<lambda>doc. map_option (\<lambda>a. fvec_renorm_L2 (elems a)) (embedding doc))
        (legal_documents self)"
proof -
  from assms(1) obtain lg0 cfg lg1 self1 lg2 self2 lg3 where
    models: "load_embedding_models env
       \<lparr>config = cfg, embeddings_model = None, legal_bert_model = None,
        vector_store = None, legal_documents = []\<rparr> = (lg1, Inr self1)"
    and db: "load_legal_database (legal_docs_dir env) self1 = (lg2, self2)"
    and vs: "initialize_vector_store self2 = (lg3, Inr self)"
    by (rule init_steps)
  from load_embedding_models_keeps [OF models]
  have s1: "vector_store self1 = None" "legal_documents self1 = []" by simp_all
  from load_legal_database_keeps(4) [OF db] s1 have none: "vector_store self2 = None" by simp
  from load_legal_database_keeps(5) [OF db] s1
  have all: "list_all (\<lambda>doc. embedding doc \<noteq> None) (legal_documents self2)" by simp
  from initialize_vector_store_built [OF vs none assms(2)]
  have docs: "legal_documents self = legal_documents self2"
    and xb: "xb index =
      map (\<lambda>a. fvec_renorm_L2 (elems a)) (List.map_filter embedding (legal_documents self2))"
    by simp_all
  have "map Some (map (\<lambda>a. fvec_renorm_L2 (elems a)) (List.map_filter embedding ds)) =
        map (\<lambda>doc. map_option (\<lambda>a. fvec_renorm_L2 (elems a)) (embedding doc)) ds"
    if "list_all (\<lambda>doc. embedding doc \<noteq> None) ds" for ds :: "LegalDocument list"
    using that by (induction ds) (auto simp: List.map_filter_simps)
  from this [OF all] docs xb
  have eq: "map Some (xb index) =
      map (\<lambda>doc. map_option (\<lambda>a. fvec_renorm_L2 (elems a)) (embedding doc))
        (legal_documents self)"
    by simp
  from arg_cong [OF eq, of length] have "length (xb index) = length (legal_documents self)"
    by simp
  with eq show ?thesis by simp
qed

theorem c6_index_parallel_to_documents_witness:
  "snd (init (example_env [lease_record, eviction_record]) example_path) =
     Inr constructed_example \<and>
   vector_store constructed_example =
     Some \<lparr>dimension = 2, xb = [ [3 / 5, 4 / 5], [3 / 5, 4 / 5] ]\<rparr> \<and>
   length [ [3 / 5, 4 / 5], [3 / 5, 4 / 5 :: real] ] =
     length (legal_documents constructed_example)"
proof -
  have store: "vector_store constructed_example =
     Some \<lparr>dimension = 2, xb = [ [3 / 5, 4 / 5], [3 / 5, 4 / 5] ]\<rparr>"
    by (simp add: constructed_example_def)
  from c6_index_parallel_to_documents [OF init_example store] init_example store
  show ?thesis by simp
qed

subsection \<open>C7\<close>



subsection \<open>C8\<close>

text \<open>
  C8. Embedding is deterministic: the branch taken and the result of the embedding
  operation are fixed by the text and the two model fields; two pipeline objects
  that agree on the loaded models take the same branch and return the same vector,
  whatever their other fields hold. The operation has no purpose argument.
\<close>

theorem c8_embedding_deterministic:
  assumes "legal_bert_model self1 = legal_bert_model self2"
    and "embeddings_model self1 = embeddings_model self2"
  shows "embedding_branch self1 text = embedding_branch self2 text \<and>
         generate_embedding self1 text = generate_embedding self2 text"
  using assms by (simp add: generate_embedding_def embedding_branch_def)

theorem c8_embedding_deterministic_witness:
  "generate_embedding both_models (JStr (py_str ''Lease law'')) =
   generate_embedding (both_models\<lparr>config := JNull, legal_documents := [lease_document]\<rparr>)
     (JStr (py_str ''Lease law'')) \<and>
   generate_embedding both_models (JStr (py_str ''Lease law'')) =
     ([], Inr (Array Float32 [0, 2]))"
  using c8_embedding_deterministic [of both_models
      "both_models\<lparr>config := JNull, legal_documents := [lease_document]\<rparr>"
      "JStr (py_str ''Lease law'')"]
  by (simp add: fixture_defs run_defs)

subsection \<open>C9\<close>

text \<open>
  C9. If the configuration file does not exist, loading the configuration does not
  fail: it logs a warning and returns the built-in defaults, every pipeline then
  constructed carries these defaults as its configuration, and the defaults set
  max_retrieved_docs to 5, min_relevance_score to 0.3, chunk_size to 1000,
  chunk_overlap to 200 and the embedding dimension to 384.
\<close>

theorem c9_missing_config_gives_defaults:
  assumes "read_json env config_path = Inl FileNotFoundError"
  shows "load_config (read_json env) config_path =
      ([Warning_config_not_found config_path], Inr get_default_config) \<and>
    (\<forall>lg self. init env config_path = (lg, Inr self) \<longrightarrow> config self = get_default_config) \<and>
    subscript2 get_default_config (py_str ''legal_processing'') (py_str ''max_retrieved_docs'') =
      Inr (JInt 5) \<and>
    subscript2 get_default_config (py_str ''legal_processing'') (py_str ''min_relevance_score'') =
      Inr (JFloat 0.3) \<and>
    subscript2 get_default_config (py_str ''legal_processing'') (py_str ''chunk_size'') =
      Inr (JInt 1000) \<and>
    subscript2 get_default_config (py_str ''legal_processing'') (py_str ''chunk_overlap'') =
      Inr (JInt 200) \<and>
    subscript2 get_default_config (py_str ''embeddings'') (py_str ''dimension'') =
      Inr (JInt 384)"
proof -
  from assms have lc: "load_config (read_json env) config_path =
      ([Warning_config_not_found config_path], Inr get_default_config)"
    by (simp add: load_config_def)
  have "config self = get_default_config" if "init env config_path = (lg, Inr self)" for lg self
  proof -
    from that obtain lg0 cfg lg1 self1 lg2 self2 lg3 where
      c: "load_config (read_json env) config_path = (lg0, Inr cfg)"
      and models: "load_embedding_models env
         \<lparr>config = cfg, embeddings_model = None, legal_bert_model = None,
          vector_store = None, legal_documents = []\<rparr> = (lg1, Inr self1)"
      and db: "load_legal_database (legal_docs_dir env) self1 = (lg2, self2)"
      and vs: "initialize_vector_store self2 = (lg3, Inr self)"
      by (rule init_steps)
    from c lc have "cfg = get_default_config" by simp
    with load_embedding_models_keeps [OF models] load_legal_database_keeps(1) [OF db]
      initialize_vector_store_keeps [OF vs]
    show ?thesis by simp
  qed
  moreover have "subscript2 get_default_config (py_str ''legal_processing'')
      (py_str ''max_retrieved_docs'') = Inr (JInt 5)"
    by (simp add: subscript2_def get_default_config_def)
  moreover have "subscript2 get_default_config (py_str ''legal_processing'')
      (py_str ''min_relevance_score'') = Inr (JFloat 0.3)"
    by (simp add: subscript2_def get_default_config_def)
  moreover have "subscript2 get_default_config (py_str ''legal_processing'')
      (py_str ''chunk_size'') = Inr (JInt 1000)"
    by (simp add: subscript2_def get_default_config_def)
  moreover have "subscript2 get_default_config (py_str ''legal_processing'')
      (py_str ''chunk_overlap'') = Inr (JInt 200)"
    by (simp add: subscript2_def get_default_config_def)
  moreover have "subscript2 get_default_config (py_str ''embeddings'')
      (py_str ''dimension'') = Inr (JInt 384)"
    by (simp add: subscript2_def get_default_config_def)
  ultimately show ?thesis using lc by blast
qed

theorem c9_missing_config_gives_defaults_witness:
  "read_json (example_env [lease_record, eviction_record]) example_path =
     Inl FileNotFoundError \<and>
   map_sum id config (snd (init (example_env [lease_record, eviction_record]) example_path)) =
     Inr get_default_config"
proof -
  have h: "read_json (example_env [lease_record, eviction_record]) example_path =
      Inl FileNotFoundError"
    by (simp add: example_env_def no_config_file_def)
  from c9_missing_config_gives_defaults [OF h] init_example h show ?thesis
    by simp
qed

subsection \<open>C10\<close>

text \<open>
  C10. For every source record loaded during ingestion, the document stored for it
  holds, in each field, the value the record gives under that key, and a fixed
  default when the key is missing: the empty string for content, an empty mapping
  for metadata, "federal" for jurisdiction, "general" for the legal domain and "en"
  for the language.
\<close>

theorem c10_record_defaults:
  assumes "generate_embedding (pipe st) (dict_get kvs (py_str ''content'') (JStr [])) =
      (lg, Inr v)"
    and "stored = legal_documents (pipe (snd (load_documents (JObj kvs # rest) st))) !
      length (legal_documents (pipe st))"
  shows "content stored =
      (case map_of kvs (py_str ''content'') of Some x \<Rightarrow> x | None \<Rightarrow> JStr []) \<and>
    metadata stored =
      (case map_of kvs (py_str ''metadata'') of Some x \<Rightarrow> x | None \<Rightarrow> JObj []) \<and>
    jurisdiction stored =
      (case map_of kvs (py_str ''jurisdiction'') of Some x \<Rightarrow> x
       | None \<Rightarrow> JStr (py_str ''federal'')) \<and>
    legal_domain stored =
      (case map_of kvs (py_str ''legal_domain'') of Some x \<Rightarrow> x
       | None \<Rightarrow> JStr (py_str ''general'')) \<and>
    language stored =
      (case map_of kvs (py_str ''language'') of Some x \<Rightarrow> x
       | None \<Rightarrow> JStr (py_str ''en'')) \<and>
    embedding stored = Some v"
proof -
  obtain legal_doc where d: "new_legal_document (JObj kvs) = Inr legal_doc"
    and f: "content legal_doc = dict_get kvs (py_str ''content'') (JStr [])"
      "metadata legal_doc = dict_get kvs (py_str ''metadata'') (JObj [])"
      "jurisdiction legal_doc = dict_get kvs (py_str ''jurisdiction'') (JStr (py_str ''federal''))"
      "legal_domain legal_doc = dict_get kvs (py_str ''legal_domain'') (JStr (py_str ''general''))"
      "language legal_doc = dict_get kvs (py_str ''language'') (JStr (py_str ''en''))"
    by simp
  let ?st1 = "st\<lparr>pipe := (pipe st)\<lparr>legal_documents :=
                legal_documents (pipe st) @ [legal_doc\<lparr>embedding := Some v\<rparr>]\<rparr>,
             document_count := Suc (document_count st),
             logged := logged st @ lg\<rparr>"
  from assms(1) d f(1) have "load_documents (JObj kvs # rest) st = load_documents rest ?st1"
    by (simp del: new_legal_document.simps)
  moreover from load_documents_extends [of rest ?st1] obtain new where
    "legal_documents (pipe (snd (load_documents rest ?st1))) =
       (legal_documents (pipe st) @ [legal_doc\<lparr>embedding := Some v\<rparr>]) @ new"
    by auto
  ultimately have "stored = legal_doc\<lparr>embedding := Some v\<rparr>"
    using assms(2) by (simp add: nth_append)
  with f show ?thesis by (simp add: dict_get_def split: option.splits)
qed

theorem c10_record_defaults_witness:
  "legal_documents (pipe (snd (load_documents [JObj [], eviction_record]
      \<lparr>pipe = general_only, document_count = 0, logged = []\<rparr>))) ! 0 =
     \<lparr>content = JStr [], metadata = JObj [], jurisdiction = JStr (py_str ''federal''),
      legal_domain = JStr (py_str ''general''), language = JStr (py_str ''en''),
      embedding = Some (Array Float32 [3, 4])\<rparr>"
proof -
  let ?st = "\<lparr>pipe = general_only, document_count = 0, logged = []\<rparr>"
  have g: "generate_embedding (pipe ?st) (dict_get [] (py_str ''content'') (JStr [])) =
      ([], Inr (Array Float32 [3, 4]))"
    by (simp add: fixture_defs run_defs)
  from c10_record_defaults [OF g refl, of "[eviction_record]"] show ?thesis
    by (simp add: general_only_def bare_pipeline_def LegalDocument.equality)
qed

end
